theory Spec2Isabelle
  imports Complex_Main "HOL-Library.Multiset"
begin

section \<open>JavaScript values used by the retrieval pipeline\<close>

text \<open>
  The backend is the second program of \<^verbatim>\<open>src/unnamed/part_001\<close> (the ChromaDB
  version, from line 277 on). Its numbers are IEEE doubles; they are idealised here as
  real numbers, so there is no rounding, no NaN and no infinity. Strings are lists of
  characters whose codes 0..255 are read as the Latin-1 code points. A value that may be
  \<^verbatim>\<open>undefined\<close> or \<^verbatim>\<open>null\<close> is an \<open>option\<close>, with \<open>None\<close> for the
  missing value.
\<close>

text \<open>
  What the program can throw: the SyntaxError of the RegExp constructor (with the
  pattern), a TypeError for a property read on \<^verbatim>\<open>undefined\<close>, the
  \<^verbatim>\<open>new Error(message)\<close> of the source, and a failure reported by the vector index
  or by the file system.
\<close>

datatype error = SyntaxError string | TypeError | Error string | IndexFailure | FsFailure

text \<open>Truthiness of a number (\<^verbatim>\<open>x ? a : b\<close>, \<^verbatim>\<open>x || d\<close>): missing values and zero are falsy.\<close>

definition truthy_num :: "real option \<Rightarrow> bool" where
  "truthy_num v = (case v of None \<Rightarrow> False | Some x \<Rightarrow> x \<noteq> 0)"

definition truthy_str :: "string option \<Rightarrow> bool" where
  "truthy_str v = (case v of None \<Rightarrow> False | Some s \<Rightarrow> s \<noteq> [])"

subsection \<open>String operations\<close>

text \<open>The characters matched by \<^verbatim>\<open>\s\<close> below code 256: tab to carriage return, space, no-break space.\<close>

definition is_ws :: "char \<Rightarrow> bool" where
  "is_ws c = (let n = (of_char c :: nat) in (9 \<le> n \<and> n \<le> 13) \<or> n = 32 \<or> n = 160)"

definition lower_char :: "char \<Rightarrow> char" where
  "lower_char c =
     (let n = (of_char c :: nat)
      in if (65 \<le> n \<and> n \<le> 90) \<or> (192 \<le> n \<and> n \<le> 222 \<and> n \<noteq> 215)
         then char_of (n + 32) else c)"

definition toLowerCase :: "string \<Rightarrow> string" where
  "toLowerCase s = map lower_char s"

text \<open>
  \<^verbatim>\<open>s.split(/\s+/)\<close>: the pieces between maximal runs of whitespace. A run at the start or
  at the end leaves an empty piece there, and the empty string gives one empty piece.
  \<open>cur\<close> is the piece being read, \<open>inws\<close> says that the last character was whitespace.
\<close>

fun split_go :: "string \<Rightarrow> bool \<Rightarrow> string \<Rightarrow> string list" where
  "split_go cur inws [] = [cur]"
| "split_go cur inws (c # cs) =
     (if is_ws c then (if inws then split_go [] True cs else cur # split_go [] True cs)
      else split_go (cur @ [c]) False cs)"

definition split_ws :: "string \<Rightarrow> string list" where
  "split_ws s = split_go [] False s"

fun starts_with :: "string \<Rightarrow> string \<Rightarrow> bool" where
  "starts_with s [] = True"
| "starts_with [] (p # ps) = False"
| "starts_with (c # cs) (p # ps) = (c = p \<and> starts_with cs ps)"

text \<open>\<^verbatim>\<open>s.includes(p)\<close>: \<open>p\<close> occurs in \<open>s\<close> as a contiguous substring.\<close>

fun js_includes :: "string \<Rightarrow> string \<Rightarrow> bool" where
  "js_includes [] p = (p = [])"
| "js_includes (c # cs) p = (starts_with (c # cs) p \<or> js_includes cs p)"

text \<open>\<^verbatim>\<open>s.trim()\<close>.\<close>

definition trim :: "string \<Rightarrow> string" where
  "trim s = rev (dropWhile is_ws (rev (dropWhile is_ws s)))"

subsection \<open>Number.prototype.toFixed(2)\<close>

definition digit :: "nat \<Rightarrow> char" where
  "digit d = char_of (48 + d)"

fun dec :: "nat \<Rightarrow> string" where
  "dec n = (if n < 10 then [digit n] else dec (n div 10) @ [digit (n mod 10)])"

declare dec.simps [simp del]

text \<open>
  \<^verbatim>\<open>x.toFixed(2)\<close> for \<open>|x| < 10^21\<close>: the sign is taken off first, then the nearest
  multiple of \<open>1/100\<close> is chosen, the larger one on a tie.
\<close>

definition toFixed2_abs :: "real \<Rightarrow> string" where
  "toFixed2_abs x =
     (let n = nat \<lfloor>x * 100 + 1 / 2\<rfloor>
      in dec (n div 100) @ ''.'' @ [digit (n mod 100 div 10), digit (n mod 10)])"

definition toFixed2 :: "real \<Rightarrow> string" where
  "toFixed2 x = (if x < 0 then ''-'' @ toFixed2_abs (- x) else toFixed2_abs x)"

subsection \<open>Regular expressions\<close>

text \<open>
  \<^verbatim>\<open>new RegExp(word, 'g')\<close> and \<^verbatim>\<open>text.match(re)\<close> belong to the JavaScript engine,
  so the engine is a parameter of the model: \<open>RegExp word\<close> is \<open>None\<close> when the
  constructor throws a SyntaxError for the pattern \<open>word\<close>, and otherwise \<open>Some count\<close>
  where \<open>count text\<close> is the number of matches that \<^verbatim>\<open>text.match\<close> returns under
  the \<^verbatim>\<open>g\<close> flag (\<open>0\<close> for the \<^verbatim>\<open>null\<close> result).
\<close>

type_synonym regexp = "string \<Rightarrow> (string \<Rightarrow> nat) option"

text \<open>
  The fragment of the engine used in the closed examples: a pattern without syntax
  characters is a literal and its matches are the non-overlapping occurrences found from
  left to right. A pattern with a syntax character is outside the fragment and is
  reported as SyntaxError, which is what the constructor does for an unclosed group.
\<close>

definition syntax_chars :: "char set" where
  "syntax_chars = set (''^$.*+?()[]{}|/'' @ [CHR 0x5C])"

fun count_from :: "string \<Rightarrow> nat \<Rightarrow> string \<Rightarrow> nat" where
  "count_from w skip [] = (if w = [] then 1 else 0)"
| "count_from w skip (c # cs) =
     (if 0 < skip then count_from w (skip - 1) cs
      else if starts_with (c # cs) w then 1 + count_from w (length w - 1) cs
      else count_from w 0 cs)"

definition literal_regexp :: regexp where
  "literal_regexp w =
     (if \<exists>c \<in> set w. c \<in> syntax_chars then None else Some (count_from w 0))"

section \<open>Data model\<close>

record metadata =
  sessionId :: "string option"
  filename :: "string option"
  chunkIndex :: nat
  m_length :: "real option"
  m_position :: "real option"
  sentenceCount :: nat
  wordCount :: nat

record chunk =
  chunk_text :: string
  distance :: "real option"
  metadata :: "metadata option"

record scores =
  s_semantic :: string
  s_bm25 :: string
  s_phrase :: real
  s_position :: string
  s_length :: string
  s_combined :: string

record scored_chunk = chunk +
  scores :: scores
  combinedScore :: real

section \<open>The reranker\<close>

fun queryBigrams :: "string list \<Rightarrow> string list" where
  "queryBigrams (a # b # rest) = (a @ '' '' @ b) # queryBigrams (b # rest)"
| "queryBigrams ws = []"

fun queryTrigrams :: "string list \<Rightarrow> string list" where
  "queryTrigrams (a # b # c # rest) = (a @ '' '' @ b @ '' '' @ c) # queryTrigrams (b # c # rest)"
| "queryTrigrams ws = []"

definition queryWords :: "string \<Rightarrow> string list" where
  "queryWords query = filter (\<lambda>w. length w > 2) (split_ws (toLowerCase query))"

definition normalizedTF :: "real \<Rightarrow> real \<Rightarrow> real" where
  "normalizedTF tf docLength =
     (let k1 = 1.5; b = 0.75; avgDocLength = 300
      in (tf * (k1 + 1)) / (tf + k1 * (1 - b + b * (docLength / avgDocLength))))"

text \<open>The loop over the query words; the constructor may throw at any word.\<close>

fun bm25_loop :: "regexp \<Rightarrow> string \<Rightarrow> real \<Rightarrow> string list \<Rightarrow> real \<Rightarrow> error + real" where
  "bm25_loop RegExp chunkText docLength [] bm25Score = Inr bm25Score"
| "bm25_loop RegExp chunkText docLength (word # rest) bm25Score =
     (case RegExp word of
        None \<Rightarrow> Inl (SyntaxError word)
      | Some match_count \<Rightarrow>
          (let tf = real (match_count chunkText)
           in bm25_loop RegExp chunkText docLength rest
                (bm25Score + normalizedTF tf docLength * 2)))"

definition docLength :: "chunk \<Rightarrow> real" where
  "docLength c = real (length (split_ws (toLowerCase (chunk_text c))))"

definition bm25Score :: "regexp \<Rightarrow> string list \<Rightarrow> chunk \<Rightarrow> error + real" where
  "bm25Score RegExp qwords c =
     bm25_loop RegExp (toLowerCase (chunk_text c)) (docLength c) qwords 0"

fun phrase_loop :: "string \<Rightarrow> real \<Rightarrow> string list \<Rightarrow> real \<Rightarrow> real" where
  "phrase_loop chunkText w [] phraseScore = phraseScore"
| "phrase_loop chunkText w (gram # rest) phraseScore =
     phrase_loop chunkText w rest
       (if js_includes chunkText gram then phraseScore + w else phraseScore)"

definition phraseScore :: "string list \<Rightarrow> chunk \<Rightarrow> real" where
  "phraseScore qwords c =
     (let chunkText = toLowerCase (chunk_text c)
      in phrase_loop chunkText 5 (queryBigrams qwords)
           (phrase_loop chunkText 10 (queryTrigrams qwords) 0))"

definition semanticScore :: "chunk \<Rightarrow> real" where
  "semanticScore c =
     (if truthy_num (distance c) then (1 - the (distance c)) * 10 else 0)"

definition md_position :: "chunk \<Rightarrow> real option" where
  "md_position c = (case metadata c of None \<Rightarrow> None | Some m \<Rightarrow> m_position m)"

definition md_length :: "chunk \<Rightarrow> real option" where
  "md_length c = (case metadata c of None \<Rightarrow> None | Some m \<Rightarrow> m_length m)"

definition positionScore :: "chunk \<Rightarrow> real" where
  "positionScore c =
     (if truthy_num (md_position c) then max 0 (3 - the (md_position c) * 0.1) else 0)"

definition lengthScore :: "chunk \<Rightarrow> real" where
  "lengthScore c =
     (let optimalLength = 1200;
          lengthDiff = \<bar>(if truthy_num (md_length c) then the (md_length c) else 1000) - optimalLength\<bar>
      in max 0 (2 - lengthDiff / 500))"

definition score_chunk :: "regexp \<Rightarrow> string list \<Rightarrow> chunk \<Rightarrow> error + scored_chunk" where
  "score_chunk RegExp qwords c =
     (case bm25Score RegExp qwords c of
        Inl e \<Rightarrow> Inl e
      | Inr bm25 \<Rightarrow>
          (let combined =
                 semanticScore c * 0.45 + bm25 * 0.30 + phraseScore qwords c * 0.15
                 + positionScore c * 0.05 + lengthScore c * 0.05
           in Inr (chunk.extend c
                \<lparr> scores =
                    \<lparr> s_semantic = toFixed2 (semanticScore c),
                      s_bm25 = toFixed2 bm25,
                      s_phrase = phraseScore qwords c,
                      s_position = toFixed2 (positionScore c),
                      s_length = toFixed2 (lengthScore c),
                      s_combined = toFixed2 combined \<rparr>,
                  combinedScore = combined \<rparr>)))"

text \<open>\<^verbatim>\<open>xs.map(f)\<close> with a callback that may throw: the first exception leaves the map.\<close>

fun map_throw :: "('a \<Rightarrow> error + 'b) \<Rightarrow> 'a list \<Rightarrow> error + 'b list" where
  "map_throw f [] = Inr []"
| "map_throw f (x # xs) =
     (case f x of
        Inl e \<Rightarrow> Inl e
      | Inr y \<Rightarrow> (case map_throw f xs of Inl e \<Rightarrow> Inl e | Inr ys \<Rightarrow> Inr (y # ys)))"

text \<open>
  \<^verbatim>\<open>xs.sort(cmp)\<close> is a stable sort (ECMAScript 2019): \<open>x\<close> stays before \<open>y\<close> unless
  \<open>cmp x y > 0\<close>. For a comparator that is a consistent order every stable sort returns
  this list.
\<close>

fun js_insert :: "('a \<Rightarrow> 'a \<Rightarrow> real) \<Rightarrow> 'a \<Rightarrow> 'a list \<Rightarrow> 'a list" where
  "js_insert cmp x [] = [x]"
| "js_insert cmp x (y # ys) =
     (if cmp x y \<le> 0 then x # y # ys else y # js_insert cmp x ys)"

fun js_sort :: "('a \<Rightarrow> 'a \<Rightarrow> real) \<Rightarrow> 'a list \<Rightarrow> 'a list" where
  "js_sort cmp [] = []"
| "js_sort cmp (x # xs) = js_insert cmp x (js_sort cmp xs)"

text \<open>\<^verbatim>\<open>xs.slice(0, e)\<close>: a negative end counts from the end of the array.\<close>

definition slice0 :: "'a list \<Rightarrow> int \<Rightarrow> 'a list" where
  "slice0 xs e =
     (let len = int (length xs);
          final = (if e < 0 then max (len + e) 0 else min e len)
      in take (nat final) xs)"

text \<open>
  \<open>topK = None\<close> is the call without the third argument (default 5). The log line
  before the return reads the result and cannot throw, so it is not part of the value.
\<close>

definition optimalReranking ::
    "regexp \<Rightarrow> string \<Rightarrow> chunk list \<Rightarrow> int option \<Rightarrow> error + scored_chunk list" where
  "optimalReranking RegExp query chunks topK =
     (case map_throw (score_chunk RegExp (queryWords query)) chunks of
        Inl e \<Rightarrow> Inl e
      | Inr scoredChunks \<Rightarrow>
          (let sorted = js_sort (\<lambda>a b. combinedScore b - combinedScore a) scoredChunks;
               topChunks = slice0 sorted (case topK of None \<Rightarrow> 5 | Some k \<Rightarrow> k)
           in Inr topChunks))"

section \<open>External capabilities\<close>

type_synonym embedding = "real list"

text \<open>
  \<^verbatim>\<open>res.status(n).send(text)\<close> is \<open>Status n text\<close>, \<^verbatim>\<open>res.json(v)\<close> is \<open>Json v\<close>, and
  the \<^verbatim>\<open>catch\<close> branch of a handler, \<^verbatim>\<open>res.status(500).send(error.message)\<close>, is
  \<open>Failure error\<close>.
\<close>

datatype 'a response = Json 'a | Status nat string | Failure error

text \<open>
  Ollama is reached over HTTP: \<open>ollama_embeddings text\<close> and
  \<open>ollama_generate prompt params\<close> are \<open>None\<close> when the request throws.
\<close>

definition getEmbedding :: "(string \<Rightarrow> embedding option) \<Rightarrow> string \<Rightarrow> error + embedding" where
  "getEmbedding ollama_embeddings t =
     (case ollama_embeddings t of
        None \<Rightarrow> Inl (Error ''Failed to get embedding from local AI'')
      | Some e \<Rightarrow> Inr e)"

record llm_params =
  temperature :: real
  top_p :: real
  top_k :: nat
  repeat_penalty :: real
  num_predict :: nat

definition OPTIMAL_LLM_PARAMS :: llm_params where
  "OPTIMAL_LLM_PARAMS =
     \<lparr> temperature = 0.2, top_p = 0.85, top_k = 30, repeat_penalty = 1.15, num_predict = 600 \<rparr>"

definition OPTIMAL_RETRIEVAL_initialFetch :: nat where
  "OPTIMAL_RETRIEVAL_initialFetch = 20"

definition OPTIMAL_RETRIEVAL_afterReranking :: int where
  "OPTIMAL_RETRIEVAL_afterReranking = 5"

definition nl :: string where
  "nl = [CHR 0x0A]"

definition askOllama_prompt :: "string \<Rightarrow> string \<Rightarrow> string" where
  "askOllama_prompt question context =
     ''You are a legal contract analysis expert. Answer the user'' @ [CHR 0x27]
       @ ''s question based on the contract excerpts provided below.'' @ nl @ nl
     @ ''Focus on:'' @ nl
     @ ''- Identifying relevant clauses and provisions'' @ nl
     @ ''- Explaining obligations and rights'' @ nl
     @ ''- Highlighting risks and liabilities'' @ nl
     @ ''- Providing clear legal interpretations'' @ nl @ nl
     @ ''If the information is not in the provided contract text, say '' @ [CHR 0x22]
       @ ''I cannot find this information in the contract.'' @ [CHR 0x22] @ nl @ nl
     @ ''CONTRACT EXCERPTS:'' @ nl @ context @ nl @ nl
     @ ''QUESTION: '' @ question @ nl @ nl
     @ ''ANSWER:''"

definition askOllama ::
    "(string \<Rightarrow> llm_params \<Rightarrow> string option) \<Rightarrow> string \<Rightarrow> string \<Rightarrow> llm_params \<Rightarrow> error + string" where
  "askOllama ollama_generate question context llmParams =
     (case ollama_generate (askOllama_prompt question context) llmParams of
        None \<Rightarrow> Inl (Error ''Failed to get answer from local AI'')
      | Some answer \<Rightarrow> Inr answer)"

subsection \<open>The vector index\<close>

text \<open>
  ChromaDB is an external service. The model keeps the stored records in insertion
  order and what the operations used by the handlers do to them: \<^verbatim>\<open>add\<close> stores one
  record per id and ignores an id that is stored already, \<^verbatim>\<open>get\<close> returns the records
  that satisfy the \<^verbatim>\<open>where\<close> filter on \<^verbatim>\<open>sessionId\<close> (all records without a filter),
  \<^verbatim>\<open>delete\<close> removes the records with the given ids. An index that cannot be reached
  (\<open>online = False\<close>) fails every operation. The nearest-neighbour \<^verbatim>\<open>query\<close> is a
  parameter of the handler that uses it. A record may be stored without metadata
  (other clients of the collection can add one); \<^verbatim>\<open>get\<close> returns \<^verbatim>\<open>null\<close> in its
  place, which is \<open>None\<close> here, and such a record satisfies no \<^verbatim>\<open>where\<close> filter.
\<close>

record indexed =
  rec_id :: string
  rec_embedding :: embedding
  rec_document :: string
  rec_metadata :: "metadata option"

record vindex =
  online :: bool
  records :: "indexed list"

record add_request =
  ids :: "string list"
  embeddings :: "embedding list"
  documents :: "string list"
  metadatas :: "metadata list"

fun zip_request :: "string list \<Rightarrow> embedding list \<Rightarrow> string list \<Rightarrow> metadata list \<Rightarrow> indexed list option" where
  "zip_request [] [] [] [] = Some []"
| "zip_request (i # is) (e # es) (d # ds) (m # ms) =
     map_option
       (\<lambda>rest. \<lparr> rec_id = i, rec_embedding = e, rec_document = d, rec_metadata = Some m \<rparr> # rest)
       (zip_request is es ds ms)"
| "zip_request is es ds ms = None"

fun store_records :: "indexed list \<Rightarrow> indexed list \<Rightarrow> indexed list" where
  "store_records [] stored = stored"
| "store_records (r # rs) stored =
     store_records rs (if rec_id r \<in> rec_id ` set stored then stored else stored @ [r])"

definition coll_add :: "add_request \<Rightarrow> vindex \<Rightarrow> error + vindex" where
  "coll_add req ix =
     (if \<not> online ix then Inl IndexFailure
      else case zip_request (ids req) (embeddings req) (documents req) (metadatas req) of
             None \<Rightarrow> Inl IndexFailure
           | Some new \<Rightarrow> Inr (ix \<lparr> records := store_records new (records ix) \<rparr>))"

definition session_of :: "indexed \<Rightarrow> string option" where
  "session_of r = (case rec_metadata r of None \<Rightarrow> None | Some m \<Rightarrow> sessionId m)"

definition coll_get :: "string option \<Rightarrow> vindex \<Rightarrow> error + indexed list" where
  "coll_get where_sessionId ix =
     (if \<not> online ix then Inl IndexFailure
      else case where_sessionId of
             None \<Rightarrow> Inr (records ix)
           | Some sid \<Rightarrow> Inr (filter (\<lambda>r. session_of r = Some sid) (records ix)))"

definition coll_delete :: "string list \<Rightarrow> vindex \<Rightarrow> error + vindex" where
  "coll_delete del_ids ix =
     (if \<not> online ix then Inl IndexFailure
      else Inr (ix \<lparr> records := filter (\<lambda>r. rec_id r \<notin> set del_ids) (records ix) \<rparr>))"

section \<open>The chunker\<close>

text \<open>
  \<^verbatim>\<open>(s.match(/[.!?]+/g) || []).length\<close>: the number of maximal runs of sentence marks.
  \<open>inrun\<close> says that the last character was one.
\<close>

definition is_mark :: "char \<Rightarrow> bool" where
  "is_mark c = (c = CHR ''.'' \<or> c = CHR ''!'' \<or> c = CHR ''?'')"

fun count_runs :: "bool \<Rightarrow> string \<Rightarrow> nat" where
  "count_runs inrun [] = 0"
| "count_runs inrun (c # cs) =
     (if is_mark c then (if inrun then count_runs True cs else 1 + count_runs True cs)
      else count_runs False cs)"

record chunk_metadata =
  cm_length :: nat
  cm_position :: nat
  cm_sentenceCount :: nat
  cm_wordCount :: nat

record text_chunk =
  tc_text :: string
  tc_metadata :: chunk_metadata

text \<open>
  The value of an expression of the handler is an Array, or the Promise that a call of
  an \<^verbatim>\<open>async\<close> function returns. The value a Promise settles to is reached through
  \<^verbatim>\<open>await\<close> only: the Promise object itself has no \<^verbatim>\<open>length\<close> and no indexed
  elements, so both reads give \<^verbatim>\<open>undefined\<close>, and \<^verbatim>\<open>i < undefined\<close> is false.
\<close>

datatype 'a js_object = Array "'a list" | Promise "'a list"

definition await :: "'a js_object \<Rightarrow> 'a list" where
  "await v = (case v of Array xs \<Rightarrow> xs | Promise xs \<Rightarrow> xs)"

definition js_length :: "'a js_object \<Rightarrow> nat option" where
  "js_length v = (case v of Array xs \<Rightarrow> Some (length xs) | Promise xs \<Rightarrow> None)"

definition js_index :: "'a js_object \<Rightarrow> nat \<Rightarrow> 'a option" where
  "js_index v i =
     (case v of Array xs \<Rightarrow> (if i < length xs then Some (xs ! i) else None) | Promise xs \<Rightarrow> None)"

definition js_less :: "nat \<Rightarrow> nat option \<Rightarrow> bool" where
  "js_less i n = (case n of None \<Rightarrow> False | Some m \<Rightarrow> i < m)"

text \<open>
  \<open>createDocuments\<close> is LangChain's RecursiveCharacterTextSplitter with chunk size 1200,
  overlap 200 and the separators of the source; it gives the page contents in order.
  \<^verbatim>\<open>optimalChunkText\<close> is declared \<^verbatim>\<open>async\<close>, so a call returns a Promise.
\<close>

definition to_chunk :: "nat \<times> string \<Rightarrow> text_chunk" where
  "to_chunk p =
     (case p of (index, pageContent) \<Rightarrow>
        \<lparr> tc_text = trim pageContent,
          tc_metadata =
            \<lparr> cm_length = length (trim pageContent),
              cm_position = index,
              cm_sentenceCount = count_runs False pageContent,
              cm_wordCount = length (split_ws (trim pageContent)) \<rparr> \<rparr>)"

definition optimalChunkText :: "(string \<Rightarrow> string list) \<Rightarrow> string \<Rightarrow> text_chunk js_object" where
  "optimalChunkText createDocuments text =
     Promise (map to_chunk (enumerate 0 (createDocuments text)))"

section \<open>POST /upload\<close>

record upload_file =
  file_path :: string
  originalname :: string
  file_filename :: string

record upload_reply =
  up_message :: string
  up_filename :: string
  chunkCount :: "nat option"
  up_sessionId :: string
  strategy :: string

definition push_chunk :: "string \<Rightarrow> string \<Rightarrow> nat \<Rightarrow> text_chunk \<Rightarrow> embedding \<Rightarrow> add_request \<Rightarrow> add_request" where
  "push_chunk sid fname i c e req =
     \<lparr> ids = ids req @ [sid @ ''_chunk_'' @ dec i],
       embeddings = embeddings req @ [e],
       documents = documents req @ [tc_text c],
       metadatas = metadatas req @
         [\<lparr> sessionId = Some sid, filename = Some fname, chunkIndex = i,
            m_length = Some (real (cm_length (tc_metadata c))),
            m_position = Some (real (cm_position (tc_metadata c))),
            sentenceCount = cm_sentenceCount (tc_metadata c),
            wordCount = cm_wordCount (tc_metadata c) \<rparr>] \<rparr>"

text \<open>The loop \<^verbatim>\<open>for (let i = 0; i < chunks.length; i++)\<close> of the handler, from \<open>i\<close> on.\<close>

function upload_loop ::
    "(string \<Rightarrow> embedding option) \<Rightarrow> string \<Rightarrow> string \<Rightarrow> text_chunk js_object \<Rightarrow> nat
       \<Rightarrow> add_request \<Rightarrow> error + add_request" where
  "upload_loop ollama_embeddings sid fname chunks i req =
     (if js_less i (js_length chunks) then
        (case js_index chunks i of
           None \<Rightarrow> Inl TypeError
         | Some c \<Rightarrow>
             (case getEmbedding ollama_embeddings (tc_text c) of
                Inl e \<Rightarrow> Inl e
              | Inr e \<Rightarrow>
                  upload_loop ollama_embeddings sid fname chunks (i + 1)
                    (push_chunk sid fname i c e req)))
      else Inr req)"
  by pat_completeness auto
termination
  by (relation "measure (\<lambda>(emb, sid, fname, chunks, i, req). length (await chunks) - i)")
     (auto simp: js_less_def js_length_def await_def split: js_object.splits option.splits)

declare upload_loop.simps [simp del]

text \<open>
  \<open>extractTextFromFile\<close> (pdf-parse or mammoth behind an extension test) and
  \<open>unlink\<close> (\<open>Some e\<close> when removing the uploaded file fails) are parameters. The
  handler returns its response and the index it leaves.
\<close>

definition upload_handler ::
    "(string \<Rightarrow> string list) \<Rightarrow> (string \<Rightarrow> embedding option)
       \<Rightarrow> (string \<Rightarrow> string \<Rightarrow> error + string) \<Rightarrow> (string \<Rightarrow> error option)
       \<Rightarrow> upload_file option \<Rightarrow> vindex \<Rightarrow> upload_reply response \<times> vindex" where
  "upload_handler createDocuments ollama_embeddings extractTextFromFile unlink file ix =
     (case file of
        None \<Rightarrow> (Status 400 ''No file uploaded.'', ix)
      | Some f \<Rightarrow>
          (case extractTextFromFile (file_path f) (originalname f) of
             Inl e \<Rightarrow> (Failure e, ix)
           | Inr extractedText \<Rightarrow>
               (let chunks = optimalChunkText createDocuments extractedText;
                    sid = file_filename f
                in case upload_loop ollama_embeddings sid (originalname f) chunks 0
                          \<lparr> ids = [], embeddings = [], documents = [], metadatas = [] \<rparr> of
                     Inl e \<Rightarrow> (Failure e, ix)
                   | Inr req \<Rightarrow>
                       (case coll_add req ix of
                          Inl e \<Rightarrow> (Failure e, ix)
                        | Inr ix' \<Rightarrow>
                            (case unlink (file_path f) of
                               Some e \<Rightarrow> (Failure e, ix')
                             | None \<Rightarrow>
                                 (Json \<lparr> up_message =
                                           ''File uploaded, processed, and stored with optimal RAG strategy!'',
                                         up_filename = originalname f,
                                         chunkCount = js_length chunks,
                                         up_sessionId = sid,
                                         strategy = ''optimal'' \<rparr>, ix'))))))"

section \<open>GET /sessions\<close>

record session =
  ses_sessionId :: string
  ses_filename :: "string option"
  ses_chunkCount :: nat

text \<open>
  The \<^verbatim>\<open>Map\<close> from session id to session keeps its keys in insertion order; it is the
  list of its values here, each value carrying its key.
\<close>

definition sessions_has :: "session list \<Rightarrow> string \<Rightarrow> bool" where
  "sessions_has sessionsMap sid = (sid \<in> ses_sessionId ` set sessionsMap)"

definition sessions_bump :: "string \<Rightarrow> session list \<Rightarrow> session list" where
  "sessions_bump sid sessionsMap =
     map (\<lambda>s. if ses_sessionId s = sid then s \<lparr> ses_chunkCount := ses_chunkCount s + 1 \<rparr> else s)
       sessionsMap"

definition sessions_step :: "session list \<Rightarrow> metadata \<Rightarrow> session list" where
  "sessions_step sessionsMap m =
     (if truthy_str (sessionId m) then
        (let sid = the (sessionId m);
             inserted =
               (if \<not> sessions_has sessionsMap sid
                then sessionsMap @ [\<lparr> ses_sessionId = sid, ses_filename = filename m, ses_chunkCount = 0 \<rparr>]
                else sessionsMap)
         in sessions_bump sid inserted)
      else sessionsMap)"

text \<open>
  \<^verbatim>\<open>allData.metadatas.forEach(meta => ...)\<close>: the callback reads \<^verbatim>\<open>meta.sessionId\<close>
  with no guard, so an entry that is \<^verbatim>\<open>null\<close> throws a TypeError and the handler
  leaves through its \<^verbatim>\<open>catch\<close>.
\<close>

fun sessions_loop :: "session list \<Rightarrow> metadata option list \<Rightarrow> error + session list" where
  "sessions_loop sessionsMap [] = Inr sessionsMap"
| "sessions_loop sessionsMap (None # rest) = Inl TypeError"
| "sessions_loop sessionsMap (Some m # rest) = sessions_loop (sessions_step sessionsMap m) rest"

definition sessions_handler :: "vindex \<Rightarrow> session list response" where
  "sessions_handler ix =
     (case coll_get None ix of
        Inl e \<Rightarrow> Failure e
      | Inr allData \<Rightarrow>
          (case sessions_loop [] (map rec_metadata allData) of
             Inl e \<Rightarrow> Failure e
           | Inr sessionsMap \<Rightarrow> Json sessionsMap))"

section \<open>DELETE /session/:sessionId\<close>

definition delete_handler :: "string \<Rightarrow> vindex \<Rightarrow> string response \<times> vindex" where
  "delete_handler sid ix =
     (case coll_get (Some sid) ix of
        Inl e \<Rightarrow> (Failure e, ix)
      | Inr results \<Rightarrow>
          (if length results > 0 then
             (case coll_delete (map rec_id results) ix of
                Inl e \<Rightarrow> (Failure e, ix)
              | Inr ix' \<Rightarrow>
                  (Json (''Deleted '' @ dec (length results) @ '' chunks for session '' @ sid), ix'))
           else (Status 404 ''Session not found'', ix)))"

section \<open>POST /ask\<close>

record ask_body =
  question :: "string option"
  body_sessionId :: "string option"

record query_params =
  queryEmbeddings :: "embedding list"
  nResults :: nat
  where_sessionId :: "string option"

text \<open>
  The result of \<^verbatim>\<open>collection.query\<close> for the one query embedding:
  \<^verbatim>\<open>results.documents[0]\<close> (\<open>None\<close> when it is missing) and the arrays
  \<^verbatim>\<open>results.distances[0]\<close> and \<^verbatim>\<open>results.metadatas[0]\<close>. A read past the end of an
  array gives \<^verbatim>\<open>undefined\<close>.
\<close>

record query_result =
  documents0 :: "string list option"
  distances0 :: "real option list"
  metadatas0 :: "metadata option list"

definition nth_opt :: "'a option list \<Rightarrow> nat \<Rightarrow> 'a option" where
  "nth_opt xs i = (if i < length xs then xs ! i else None)"

record source =
  src_text :: string
  src_filename :: string
  src_scores :: scores

record retrieval_settings =
  retrievalCount :: nat
  rerankCount :: int
  set_temperature :: real
  set_topP :: real
  set_topK :: nat
  set_strategy :: string

record retrieval_info =
  initialRetrieved :: nat
  afterReranking :: nat
  documentsSearched :: nat
  settings :: retrieval_settings

datatype searched = SearchedOne | SearchedAll

record ask_reply =
  answer :: string
  sources :: "source list"
  searchedDocuments :: "searched option"
  retrievalInfo :: "retrieval_info option"

text \<open>\<^verbatim>\<open>chunk.metadata?.filename || 'Unknown'\<close>.\<close>

definition source_filename :: "'a chunk_scheme \<Rightarrow> string" where
  "source_filename c =
     (case metadata c of
        None \<Rightarrow> ''Unknown''
      | Some m \<Rightarrow> (if truthy_str (filename m) then the (filename m) else ''Unknown''))"

definition documentSources_step ::
    "(string \<times> string list) list \<Rightarrow> 'a chunk_scheme \<Rightarrow> (string \<times> string list) list" where
  "documentSources_step documentSources c =
     (let fname = source_filename c;
          inserted = (if fname \<notin> fst ` set documentSources
                      then documentSources @ [(fname, [])] else documentSources)
      in map (\<lambda>(k, v). if k = fname then (k, v @ [chunk_text c]) else (k, v)) inserted)"

fun join :: "string \<Rightarrow> string list \<Rightarrow> string" where
  "join sep [] = []"
| "join sep [x] = x"
| "join sep (x # y # ys) = x @ sep @ join sep (y # ys)"

definition retrievedChunks :: "query_result \<Rightarrow> chunk list" where
  "retrievedChunks results =
     map (\<lambda>(idx, doc).
            \<lparr> chunk_text = doc,
              distance = nth_opt (distances0 results) idx,
              metadata = nth_opt (metadatas0 results) idx \<rparr>)
       (enumerate 0 (the (documents0 results)))"

definition cannot_find :: string where
  "cannot_find =
     ''I cannot find relevant information in the document(s) to answer this question.''"

definition ask_handler ::
    "regexp \<Rightarrow> (string \<Rightarrow> embedding option) \<Rightarrow> (query_params \<Rightarrow> error + query_result)
       \<Rightarrow> (string \<Rightarrow> llm_params \<Rightarrow> string option) \<Rightarrow> ask_body \<Rightarrow> ask_reply response" where
  "ask_handler RegExp ollama_embeddings collection_query ollama_generate body =
     (if \<not> truthy_str (question body) then Status 400 ''Missing question.''
      else
        (let q = the (question body);
             retrievalCount = OPTIMAL_RETRIEVAL_initialFetch;
             rerankCount = OPTIMAL_RETRIEVAL_afterReranking;
             llmParams = OPTIMAL_LLM_PARAMS
         in case getEmbedding ollama_embeddings q of
              Inl e \<Rightarrow> Failure e
            | Inr questionEmbedding \<Rightarrow>
                (let queryParams =
                       \<lparr> queryEmbeddings = [questionEmbedding], nResults = retrievalCount,
                         where_sessionId =
                           (if truthy_str (body_sessionId body) then body_sessionId body else None) \<rparr>
                 in case collection_query queryParams of
                      Inl e \<Rightarrow> Failure e
                    | Inr results \<Rightarrow>
                        (if documents0 results = None \<or> length (the (documents0 results)) = 0 then
                           Json \<lparr> answer = cannot_find, sources = [],
                                  searchedDocuments =
                                    Some (if truthy_str (body_sessionId body)
                                          then SearchedOne else SearchedAll),
                                  retrievalInfo = None \<rparr>
                         else
                           (case optimalReranking RegExp q (retrievedChunks results) (Some rerankCount) of
                              Inl e \<Rightarrow> Failure e
                            | Inr rerankedChunks \<Rightarrow>
                                (let documentSources = foldl documentSources_step [] rerankedChunks;
                                     context =
                                       join (nl @ nl @ ''---'' @ nl @ nl)
                                         (map (\<lambda>c. ''[Source: '' @ source_filename c @ '']'' @ nl
                                                     @ chunk_text c) rerankedChunks)
                                 in case askOllama ollama_generate q context llmParams of
                                      Inl e \<Rightarrow> Failure e
                                    | Inr a \<Rightarrow>
                                        Json \<lparr> answer = a,
                                               sources =
                                                 map (\<lambda>c. \<lparr> src_text = chunk_text c,
                                                             src_filename = source_filename c,
                                                             src_scores = scores c \<rparr>) rerankedChunks,
                                               searchedDocuments = None,
                                               retrievalInfo = Some
                                                 \<lparr> initialRetrieved = length (retrievedChunks results),
                                                   afterReranking = length rerankedChunks,
                                                   documentsSearched = length documentSources,
                                                   settings =
                                                     \<lparr> retrievalCount = OPTIMAL_RETRIEVAL_initialFetch,
                                                       rerankCount = OPTIMAL_RETRIEVAL_afterReranking,
                                                       set_temperature = temperature OPTIMAL_LLM_PARAMS,
                                                       set_topP = top_p OPTIMAL_LLM_PARAMS,
                                                       set_topK = top_k OPTIMAL_LLM_PARAMS,
                                                       set_strategy = ''optimal'' \<rparr> \<rparr> \<rparr>))))))"

section \<open>Concrete inputs\<close>

text \<open>The inputs at which the theorems below are instantiated.\<close>

definition example_metadata :: metadata where
  "example_metadata =
     \<lparr> sessionId = Some ''s1'', filename = Some ''A.pdf'', chunkIndex = 1,
       m_length = Some 1200, m_position = Some 1, sentenceCount = 1, wordCount = 2 \<rparr>"

definition example_first :: chunk where
  "example_first =
     \<lparr> chunk_text = ''Other terms'', distance = Some 0.25, metadata = Some example_metadata \<rparr>"

definition example_second :: chunk where
  "example_second =
     \<lparr> chunk_text = ''The Termination clause applies'', distance = Some 0.5, metadata = None \<rparr>"

definition example_repeated :: chunk where
  "example_repeated =
     \<lparr> chunk_text = ''Termination termination clause applies'', distance = Some 0.5,
       metadata = None \<rparr>"

definition example_chunks :: "chunk list" where
  "example_chunks = [example_first, example_second]"

definition example_top :: scored_chunk where
  "example_top =
     \<lparr> chunk_text = ''The Termination clause applies'', distance = Some 0.5, metadata = None,
       scores =
         \<lparr> s_semantic = ''5.00'', s_bm25 = ''7.19'', s_phrase = 5, s_position = ''0.00'',
           s_length = ''1.60'', s_combined = ''5.24'' \<rparr>,
       combinedScore = 18203 / 3475 \<rparr>"

definition example_next :: scored_chunk where
  "example_next =
     \<lparr> chunk_text = ''Other terms'', distance = Some 0.25, metadata = Some example_metadata,
       scores =
         \<lparr> s_semantic = ''7.50'', s_bm25 = ''0.00'', s_phrase = 0, s_position = ''2.90'',
           s_length = ''2.00'', s_combined = ''3.62'' \<rparr>,
       combinedScore = 181 / 50 \<rparr>"

definition example_record :: "string \<Rightarrow> string \<Rightarrow> string \<Rightarrow> indexed" where
  "example_record i sid fname =
     \<lparr> rec_id = i, rec_embedding = [1], rec_document = ''Clause'',
       rec_metadata =
         Some \<lparr> sessionId = Some sid, filename = Some fname, chunkIndex = 0,
                m_length = Some 6, m_position = Some 0, sentenceCount = 0, wordCount = 1 \<rparr> \<rparr>"

definition example_index :: vindex where
  "example_index =
     \<lparr> online = True,
       records = [example_record ''s1_chunk_0'' ''s1'' ''A.pdf'',
                  example_record ''s2_chunk_0'' ''s2'' ''B.pdf'',
                  example_record ''s1_chunk_1'' ''s1'' ''A.pdf''] \<rparr>"

definition disagreeing_index :: vindex where
  "disagreeing_index =
     \<lparr> online = True,
       records = [example_record ''s1_chunk_0'' ''s1'' ''A.pdf'',
                  example_record ''s1_chunk_1'' ''s1'' ''B.pdf''] \<rparr>"

definition bare_index :: vindex where
  "bare_index =
     \<lparr> online = True,
       records = [example_record ''s1_chunk_0'' ''s1'' ''A.pdf'',
                  \<lparr> rec_id = ''note'', rec_embedding = [1], rec_document = ''Clause'',
                    rec_metadata = None \<rparr>] \<rparr>"

definition example_body :: ask_body where
  "example_body = \<lparr> question = Some ''What is the notice period?'', body_sessionId = None \<rparr>"

definition empty_result :: query_result where
  "empty_result = \<lparr> documents0 = Some [], distances0 = [], metadatas0 = [] \<rparr>"

section \<open>The session loop: what holds after each metadata entry\<close>

text \<open>
  \<open>grp sid ms\<close> are the entries of \<open>ms\<close> that carry the session id \<open>sid\<close>, in order.
  After the loop has read \<open>ms\<close>, the map holds one session per non-empty id that occurs,
  with the size of its group and the file name of the first entry of the group.
\<close>

definition grp :: "string \<Rightarrow> metadata list \<Rightarrow> metadata list" where
  "grp sid ms = filter (\<lambda>m. sessionId m = Some sid) ms"

definition sessions_inv :: "metadata list \<Rightarrow> session list \<Rightarrow> bool" where
  "sessions_inv ms ss \<longleftrightarrow>
     distinct (map ses_sessionId ss)
   \<and> ses_sessionId ` set ss = {sid. sid \<noteq> [] \<and> grp sid ms \<noteq> []}
   \<and> (\<forall>s \<in> set ss. ses_chunkCount s = length (grp (ses_sessionId s) ms)
                    \<and> ses_filename s = filename (hd (grp (ses_sessionId s) ms)))"

section \<open>Properties of the reranker\<close>

lemma map_throw_Inr:
  "map_throw f xs = Inr ys \<Longrightarrow> list_all2 (\<lambda>x y. f x = Inr y) xs ys"
  by (induction xs arbitrary: ys) (auto split: sum.splits)

lemma js_insert_insort_key:
  fixes f :: "'a \<Rightarrow> real"
  shows "js_insert (\<lambda>a b. f b - f a) x xs = insort_key (\<lambda>y. - f y) x xs"
  by (induction xs) auto

lemma js_sort_sort_key:
  fixes f :: "'a \<Rightarrow> real"
  shows "js_sort (\<lambda>a b. f b - f a) xs = sort_key (\<lambda>y. - f y) xs"
  by (induction xs) (auto simp: js_insert_insort_key)

lemma slice0_nonneg: "0 \<le> e \<Longrightarrow> slice0 xs e = take (nat e) xs"
  by (auto simp: slice0_def Let_def min_def)

lemma set_slice0: "set (slice0 xs e) \<subseteq> set xs"
  by (auto simp: slice0_def Let_def dest: in_set_takeD)

lemma sorted_desc_sort_key:
  fixes f :: "'a \<Rightarrow> real"
  shows "sorted_wrt (\<lambda>x y. f y \<le> f x) (sort_key (\<lambda>y. - f y) xs)"
proof -
  have "sorted (map (\<lambda>y. - f y) (sort_key (\<lambda>y. - f y) xs))"
    by (rule sorted_sort_key)
  then show ?thesis
    by (simp add: sorted_map)
qed

lemma score_chunk_fields:
  assumes "score_chunk RegExp qwords c = Inr r"
  shows "\<exists>bm25. bm25Score RegExp qwords c = Inr bm25 \<and> chunk.truncate r = c
      \<and> combinedScore r = 0.45 * semanticScore c + 0.30 * bm25 + 0.15 * phraseScore qwords c
            + 0.05 * positionScore c + 0.05 * lengthScore c
      \<and> s_combined (scores r) = toFixed2 (combinedScore r)"
  using assms
  by (auto simp: score_chunk_def Let_def chunk.truncate_def chunk.extend_def split: sum.splits)

lemma rerank_Inr:
  assumes "optimalReranking RegExp query chunks k = Inr topChunks"
  obtains scoredChunks where
    "map_throw (score_chunk RegExp (queryWords query)) chunks = Inr scoredChunks"
    "length scoredChunks = length chunks"
    "topChunks = slice0 (sort_key (\<lambda>s. - combinedScore s) scoredChunks)
                   (case k of None \<Rightarrow> 5 | Some n \<Rightarrow> n)"
proof -
  from assms obtain scoredChunks where
    m: "map_throw (score_chunk RegExp (queryWords query)) chunks = Inr scoredChunks" and
    t: "topChunks = slice0 (sort_key (\<lambda>s. - combinedScore s) scoredChunks)
                   (case k of None \<Rightarrow> 5 | Some n \<Rightarrow> n)"
    by (auto simp: optimalReranking_def Let_def js_sort_sort_key split: sum.splits)
  from map_throw_Inr[OF m] have "length scoredChunks = length chunks"
    by (simp add: list_all2_lengthD)
  with m t that show thesis by blast
qed

lemma rerank_length:
  assumes "optimalReranking RegExp query chunks (Some k) = Inr topChunks" and "0 \<le> k"
  shows "int (length topChunks) = min k (int (length chunks))"
proof -
  from assms(1) obtain scoredChunks where
    "length scoredChunks = length chunks"
    "topChunks = slice0 (sort_key (\<lambda>s. - combinedScore s) scoredChunks) k"
    by (rule rerank_Inr) simp
  with assms(2) show ?thesis by (simp add: slice0_nonneg)
qed

lemma rerank_empty: "optimalReranking RegExp query [] k = Inr []"
  by (simp add: optimalReranking_def slice0_def)

lemma example_ranking:
  "optimalReranking literal_regexp ''termination clause'' example_chunks None
     = Inr [example_top, example_next]"
  by code_simp

lemma example_ranking_top1:
  "optimalReranking literal_regexp ''termination clause'' example_chunks (Some 1)
     = Inr [example_top]"
  by code_simp

text \<open>
  Claim C1. Every scored chunk that \<open>optimalReranking\<close> returns comes from one of the
  candidates, and its combined score is 0.45 times the semantic score plus 0.30 times the
  bm25 score plus 0.15 times the phrase score plus 0.05 times the position score plus
  0.05 times the length score of that candidate. The weights are the literals of the
  source: they do not depend on the query, on the candidates or on \<open>topK\<close>. The
  \<open>scores\<close> of the result hold the two-decimal renderings of these numbers; the
  number itself is the field \<open>combinedScore\<close>, which the sort reads.
\<close>

theorem rerank_combined_score:
  assumes "optimalReranking RegExp query chunks k = Inr topChunks"
    and "r \<in> set topChunks"
  shows "\<exists>c bm25. c \<in> set chunks \<and> chunk.truncate r = c
      \<and> bm25Score RegExp (queryWords query) c = Inr bm25
      \<and> combinedScore r = 0.45 * semanticScore c + 0.30 * bm25
            + 0.15 * phraseScore (queryWords query) c
            + 0.05 * positionScore c + 0.05 * lengthScore c"
proof -
  from assms(1) obtain scoredChunks where
    m: "map_throw (score_chunk RegExp (queryWords query)) chunks = Inr scoredChunks" and
    t: "topChunks = slice0 (sort_key (\<lambda>s. - combinedScore s) scoredChunks)
                   (case k of None \<Rightarrow> 5 | Some n \<Rightarrow> n)"
    by (rule rerank_Inr)
  from t assms(2) have "r \<in> set scoredChunks"
    using set_slice0 by fastforce
  with map_throw_Inr[OF m] obtain c where c: "c \<in> set chunks"
    and s: "score_chunk RegExp (queryWords query) c = Inr r"
    by (fastforce simp: list_all2_conv_all_nth in_set_conv_nth)
  from score_chunk_fields[OF s] c show ?thesis by blast
qed

text \<open>The theorem of C1 at the query ``termination clause'' and the two example chunks.\<close>

theorem rerank_combined_score_witness:
  "optimalReranking literal_regexp ''termination clause'' example_chunks None
     = Inr [example_top, example_next]
   \<and> example_top \<in> set [example_top, example_next]
   \<and> (\<exists>c bm25. c \<in> set example_chunks \<and> chunk.truncate example_top = c
      \<and> bm25Score literal_regexp (queryWords ''termination clause'') c = Inr bm25
      \<and> combinedScore example_top = 0.45 * semanticScore c + 0.30 * bm25
            + 0.15 * phraseScore (queryWords ''termination clause'') c
            + 0.05 * positionScore c + 0.05 * lengthScore c)"
proof -
  have m: "example_top \<in> set [example_top, example_next]" by simp
  from rerank_combined_score[OF example_ranking m] example_ranking m show ?thesis
    by blast
qed

text \<open>
  Claim C2. For a non-negative \<open>topK = k\<close>, \<open>optimalReranking\<close> returns exactly
  \<open>min k |candidates|\<close> scored chunks, in descending order of the combined score. They
  are the head of the scored candidates: every scored candidate that is left out scores
  no more than every one that is returned. Ties keep the retrieval order and the
  first seen wins: for every score \<open>v\<close>, the returned chunks that score \<open>v\<close> are, in
  order, an initial part of the candidates that score \<open>v\<close>.
\<close>

theorem rerank_topK:
  assumes "optimalReranking RegExp query chunks (Some k) = Inr topChunks" and "0 \<le> k"
  shows "int (length topChunks) = min k (int (length chunks))
    \<and> sorted_wrt (\<lambda>x y. combinedScore y \<le> combinedScore x) topChunks
    \<and> (\<exists>scoredChunks rest.
          map_throw (score_chunk RegExp (queryWords query)) chunks = Inr scoredChunks
        \<and> mset (topChunks @ rest) = mset scoredChunks
        \<and> (\<forall>x \<in> set topChunks. \<forall>y \<in> set rest. combinedScore y \<le> combinedScore x)
        \<and> (\<forall>v. \<exists>later. filter (\<lambda>s. combinedScore s = v) scoredChunks
                         = filter (\<lambda>s. combinedScore s = v) topChunks @ later))"
proof -
  from assms(1) obtain scoredChunks where
    m: "map_throw (score_chunk RegExp (queryWords query)) chunks = Inr scoredChunks" and
    t0: "topChunks = slice0 (sort_key (\<lambda>s. - combinedScore s) scoredChunks) k"
    by (rule rerank_Inr) simp
  define sorted where "sorted = sort_key (\<lambda>s. - combinedScore s) scoredChunks"
  from t0 assms(2) have t: "topChunks = take (nat k) sorted"
    by (simp add: slice0_nonneg sorted_def)
  have s: "sorted_wrt (\<lambda>x y. combinedScore y \<le> combinedScore x) sorted"
    unfolding sorted_def by (rule sorted_desc_sort_key)
  have split: "sorted = topChunks @ drop (nat k) sorted"
    by (simp add: t)
  have 1: "int (length topChunks) = min k (int (length chunks))"
    using assms by (rule rerank_length)
  have 2: "sorted_wrt (\<lambda>x y. combinedScore y \<le> combinedScore x) topChunks"
    using s split by (metis sorted_wrt_append)
  have 3: "mset (topChunks @ drop (nat k) sorted) = mset scoredChunks"
    using split by (metis mset_sort sorted_def)
  have 4: "\<forall>x \<in> set topChunks. \<forall>y \<in> set (drop (nat k) sorted). combinedScore y \<le> combinedScore x"
    using s split by (metis sorted_wrt_append)
  have 5: "\<exists>later. filter (\<lambda>s. combinedScore s = v) scoredChunks
                         = filter (\<lambda>s. combinedScore s = v) topChunks @ later" for v
  proof -
    have "filter (\<lambda>s. - combinedScore s = - v) sorted = filter (\<lambda>s. - combinedScore s = - v) scoredChunks"
      unfolding sorted_def by (rule sort_key_stable)
    then have "filter (\<lambda>s. combinedScore s = v) scoredChunks = filter (\<lambda>s. combinedScore s = v) sorted"
      by simp
    also have "\<dots> = filter (\<lambda>s. combinedScore s = v) topChunks
                   @ filter (\<lambda>s. combinedScore s = v) (drop (nat k) sorted)"
      using split by (metis filter_append)
    finally show ?thesis by blast
  qed
  from 1 2 m 3 4 5 show ?thesis by blast
qed

text \<open>The theorem of C2 at \<open>topK = 1\<close> and the two example chunks.\<close>

theorem rerank_topK_witness:
  "optimalReranking literal_regexp ''termination clause'' example_chunks (Some 1) = Inr [example_top]
   \<and> (0 :: int) \<le> 1
   \<and> int (length [example_top]) = min 1 (int (length example_chunks))
   \<and> sorted_wrt (\<lambda>x y. combinedScore y \<le> combinedScore x) [example_top]"
proof -
  have k: "(0 :: int) \<le> 1" by simp
  from rerank_topK[OF example_ranking_top1 k] example_ranking_top1 k show ?thesis
    by blast
qed

section \<open>The lexical score\<close>

lemma normalizedTF_mono:
  assumes "0 \<le> tf" "tf \<le> tf'" "0 \<le> dl"
  shows "normalizedTF tf dl \<le> normalizedTF tf' dl"
proof -
  define c :: real where "c = 1.5 * (1 - 0.75 + 0.75 * (dl / 300))"
  have c: "0 < c" using assms(3) by (simp add: c_def)
  have "tf * 2.5 / (tf + c) \<le> tf' * 2.5 / (tf' + c)"
    using assms c by (simp add: frac_le_eq field_simps)
  then show ?thesis by (simp add: normalizedTF_def c_def Let_def)
qed

lemma bm25_loop_mono:
  assumes "0 \<le> dl"
    and "\<forall>w \<in> set ws. \<forall>f. RegExp w = Some f \<longrightarrow> f t \<le> f t'"
    and "bm25_loop RegExp t dl ws acc = Inr s" and "acc \<le> acc'"
  shows "\<exists>s'. bm25_loop RegExp t' dl ws acc' = Inr s' \<and> s \<le> s'"
  using assms
proof (induction ws arbitrary: acc acc' s)
  case Nil
  then show ?case by simp
next
  case (Cons w ws)
  from Cons.prems(3) obtain f where f: "RegExp w = Some f"
    by (auto split: option.splits)
  with Cons.prems(2) have le: "f t \<le> f t'" by simp
  have "normalizedTF (real (f t)) dl \<le> normalizedTF (real (f t')) dl"
    using le Cons.prems(1) by (intro normalizedTF_mono) auto
  then have acc: "acc + normalizedTF (real (f t)) dl * 2 \<le> acc' + normalizedTF (real (f t')) dl * 2"
    using Cons.prems(4) by simp
  from Cons.prems(3) f have run: "bm25_loop RegExp t dl ws (acc + normalizedTF (real (f t)) dl * 2) = Inr s"
    by (simp add: Let_def)
  from Cons.IH[OF Cons.prems(1) _ run acc] Cons.prems(2) f show ?case
    by (simp add: Let_def)
qed

lemma example_queryWords: "queryWords ''termination clause'' = [''termination'', ''clause'']"
  by code_simp

lemma example_counts:
  "count_from ''termination'' 0 (toLowerCase (chunk_text example_second))
     \<le> count_from ''termination'' 0 (toLowerCase (chunk_text example_repeated))"
  "count_from ''clause'' 0 (toLowerCase (chunk_text example_second))
     \<le> count_from ''clause'' 0 (toLowerCase (chunk_text example_repeated))"
  by code_simp+

lemma example_literals:
  "literal_regexp ''termination'' = Some (count_from ''termination'' 0)"
  "literal_regexp ''clause'' = Some (count_from ''clause'' 0)"
  by (simp_all add: literal_regexp_def syntax_chars_def)

lemma example_docLength: "docLength example_second = docLength example_repeated"
  by code_simp

lemma example_bm25:
  "bm25Score literal_regexp (queryWords ''termination clause'') example_second = Inr (1000 / 139)"
  by code_simp

text \<open>
  Claim C5. Take two candidates with the same word count such that no query term
  matches less often in the second than in the first (one term matches more often, the
  others as often). Then the second has at least the bm25 score of the first; and
  \<open>normalizedTF = tf (k1 + 1) / (tf + k1 (1 - b + b (docLen / avgDocLen)))\<close> with
  \<open>k1 = 1.5\<close>, \<open>b = 0.75\<close>, \<open>avgDocLen = 300\<close> is monotone in \<open>tf\<close> at the word
  count of a candidate.
\<close>

theorem bm25_monotone:
  assumes "docLength c = docLength c'"
    and "\<forall>w \<in> set qwords. \<forall>f. RegExp w = Some f \<longrightarrow>
           f (toLowerCase (chunk_text c)) \<le> f (toLowerCase (chunk_text c'))"
    and "bm25Score RegExp qwords c = Inr s"
  shows "(\<exists>s'. bm25Score RegExp qwords c' = Inr s' \<and> s \<le> s')
    \<and> (\<forall>tf tf' :: nat. tf \<le> tf' \<longrightarrow>
          normalizedTF (real tf) (docLength c) \<le> normalizedTF (real tf') (docLength c))"
proof -
  have dl: "0 \<le> docLength c'" "0 \<le> docLength c" by (simp_all add: docLength_def)
  with assms have "\<exists>s'. bm25Score RegExp qwords c' = Inr s' \<and> s \<le> s'"
    unfolding bm25Score_def by (intro bm25_loop_mono[where acc = 0 and acc' = 0]) auto
  moreover have "normalizedTF (real tf) (docLength c) \<le> normalizedTF (real tf') (docLength c)"
    if "tf \<le> tf'" for tf tf' :: nat
    using that dl(2) by (intro normalizedTF_mono) auto
  ultimately show ?thesis by blast
qed

text \<open>
  The theorem of C5 at two texts of four words: ``termination'' matches once in the
  first and twice in the second, ``clause'' once in both.
\<close>

theorem bm25_monotone_witness:
  "docLength example_second = docLength example_repeated
   \<and> bm25Score literal_regexp (queryWords ''termination clause'') example_second = Inr (1000 / 139)
   \<and> (\<exists>s'. bm25Score literal_regexp (queryWords ''termination clause'') example_repeated = Inr s'
          \<and> 1000 / 139 \<le> s')"
proof -
  have counts: "\<forall>w \<in> set (queryWords ''termination clause''). \<forall>f. literal_regexp w = Some f \<longrightarrow>
      f (toLowerCase (chunk_text example_second)) \<le> f (toLowerCase (chunk_text example_repeated))"
    using example_counts by (auto simp: example_queryWords example_literals)
  from bm25_monotone[OF example_docLength counts example_bm25] example_docLength example_bm25
  show ?thesis by blast
qed

section \<open>The semantic and the position score\<close>

text \<open>
  Claim C3. For a candidate at cosine distance \<open>d\<close> in \<open>[0, 2]\<close> the semantic score is
  \<open>(1 - d) * 10\<close>, so a candidate at distance 0 scores 10. The source computes
  \<^verbatim>\<open>chunk.distance ? (1 - chunk.distance) * 10 : 0\<close>, and the number 0 is falsy: at
  distance 0 the semantic score is 0, whatever the rest of the candidate is. For every
  other distance the formula holds (\<open>semanticScore_nonzero\<close> below).
\<close>

theorem semanticScore_distance_zero: "semanticScore (c\<lparr>distance := Some 0\<rparr>) = 0"
  by (simp add: semanticScore_def truthy_num_def)

lemma semanticScore_nonzero:
  "distance c = Some d \<Longrightarrow> d \<noteq> 0 \<Longrightarrow> semanticScore c = (1 - d) * 10"
  by (simp add: semanticScore_def truthy_num_def)

text \<open>
  Claim C4. For a candidate with emission index \<open>p\<close> the position score is
  \<open>max 0 (3 - 0.1 p)\<close>, so the first chunk of a document (position 0) scores 3. The
  source computes \<^verbatim>\<open>chunk.metadata?.position ? Math.max(0, 3 - position * 0.1) : 0\<close>,
  and the number 0 is falsy: at position 0 the position score is 0. For every other
  position the formula holds (\<open>positionScore_nonzero\<close> below).
\<close>

theorem positionScore_position_zero:
  "positionScore (c\<lparr>metadata := Some (m\<lparr>m_position := Some 0\<rparr>)\<rparr>) = 0"
  by (simp add: positionScore_def md_position_def truthy_num_def)

lemma positionScore_nonzero:
  "metadata c = Some m \<Longrightarrow> m_position m = Some p \<Longrightarrow> p \<noteq> 0
     \<Longrightarrow> positionScore c = max 0 (3 - 0.1 * p)"
  by (simp add: positionScore_def md_position_def truthy_num_def)

section \<open>Queries that are not regular expressions\<close>

lemma queryWords_parens: "queryWords ''(((('' = [''((((''] "
  by code_simp

text \<open>
  Claim C10. \<open>optimalReranking\<close> returns for every query and every candidate list: it
  never throws. The source passes each query word to \<^verbatim>\<open>new RegExp(word, 'g')\<close> as it
  stands. The query \<^verbatim>\<open>((((\<close> is one word of four characters, and for an engine that
  rejects this pattern (an unclosed group) the call on a non-empty candidate list ends
  with the SyntaxError of the constructor.
\<close>

theorem rerank_throws_on_unclosed_group:
  assumes "RegExp ''(((('' = None"
  shows "optimalReranking RegExp ''(((('' (c # cs) k = Inl (SyntaxError ''(((('')"
  using assms
  by (simp add: optimalReranking_def queryWords_parens score_chunk_def bm25Score_def)

text \<open>
  The theorem of C10 at the two example chunks.
\<close>

theorem rerank_throws_on_unclosed_group_witness:
  "literal_regexp ''(((('' = None
   \<and> optimalReranking literal_regexp ''(((('' (example_first # [example_second]) (Some 5)
       = Inl (SyntaxError ''(((('')"
proof -
  have h: "literal_regexp ''(((('' = None"
    by (simp add: literal_regexp_def syntax_chars_def)
  from rerank_throws_on_unclosed_group[of literal_regexp example_first "[example_second]" "Some 5"] h
  show ?thesis by blast
qed

section \<open>Empty candidate lists and empty retrievals\<close>

lemma rerank_nonempty:
  assumes "optimalReranking RegExp query chunks (Some 5) = Inr []"
  shows "chunks = []"
proof -
  have "int (length ([] :: scored_chunk list)) = min 5 (int (length chunks))"
    using rerank_length[OF assms] by simp
  then show ?thesis by (simp add: min_def split: if_splits)
qed

lemma retrievedChunks_empty:
  "retrievedChunks results = [] \<Longrightarrow> documents0 results = Some ds \<Longrightarrow> ds = []"
  by (simp add: retrievedChunks_def enumerate_eq_zip)

text \<open>
  Claim C6. \<open>optimalReranking\<close> on the empty candidate list returns the empty list, for
  every query, every \<open>topK\<close> and every engine, without an error. And when the question is
  present, the embedding is obtained and the index answers the query, a request whose
  retrieval is empty, or whose reranking returns no chunk, is answered with the fixed
  ``cannot find'' text and an empty list of sources, as a JSON reply and not as a failure.
\<close>

theorem empty_input_handling:
  assumes "truthy_str (question body)"
    and "ollama_embeddings (the (question body)) = Some e"
    and "collection_query
           \<lparr> queryEmbeddings = [e], nResults = 20,
             where_sessionId = (if truthy_str (body_sessionId body) then body_sessionId body else None) \<rparr>
         = Inr results"
    and "documents0 results = None \<or> documents0 results = Some []
         \<or> optimalReranking RegExp (the (question body)) (retrievedChunks results) (Some 5) = Inr []"
  shows "optimalReranking RegExp query [] k = Inr []
    \<and> ask_handler RegExp ollama_embeddings collection_query ollama_generate body
        = Json \<lparr> answer = cannot_find, sources = [],
                 searchedDocuments = Some (if truthy_str (body_sessionId body) then SearchedOne else SearchedAll),
                 retrievalInfo = None \<rparr>"
proof -
  have empty: "documents0 results = None \<or> documents0 results = Some []"
  proof (cases "documents0 results")
    case None
    then show ?thesis by simp
  next
    case (Some ds)
    with assms(4) have "ds = [] \<or> retrievedChunks results = []"
      using rerank_nonempty by auto
    with Some retrievedChunks_empty show ?thesis by auto
  qed
  have "ask_handler RegExp ollama_embeddings collection_query ollama_generate body
        = Json \<lparr> answer = cannot_find, sources = [],
                 searchedDocuments = Some (if truthy_str (body_sessionId body) then SearchedOne else SearchedAll),
                 retrievalInfo = None \<rparr>"
    using assms(1,2,3) empty
    by (auto simp: ask_handler_def getEmbedding_def Let_def OPTIMAL_RETRIEVAL_initialFetch_def)
  then show ?thesis by (simp add: rerank_empty)
qed

text \<open>
  The theorem of C6 at a question for which the index returns no document.
\<close>

theorem empty_input_handling_witness:
  "truthy_str (question example_body)
   \<and> optimalReranking literal_regexp ''(((('' [] (Some 5) = Inr []
   \<and> ask_handler literal_regexp (\<lambda>t. Some [1]) (\<lambda>p. Inr empty_result) (\<lambda>p l. None) example_body
        = Json \<lparr> answer = cannot_find, sources = [], searchedDocuments = Some SearchedAll,
                 retrievalInfo = None \<rparr>"
proof -
  have q: "truthy_str (question example_body)"
    by (simp add: example_body_def truthy_str_def)
  have e: "(\<lambda>t. Some [1 :: real]) (the (question example_body)) = Some [1]"
    by simp
  have r: "(\<lambda>p :: query_params. (Inr empty_result :: error + query_result))
             \<lparr> queryEmbeddings = [[1]], nResults = 20,
               where_sessionId = (if truthy_str (body_sessionId example_body)
                                  then body_sessionId example_body else None) \<rparr>
           = Inr empty_result"
    by simp
  have d: "documents0 empty_result = None \<or> documents0 empty_result = Some []
         \<or> optimalReranking literal_regexp (the (question example_body))
              (retrievedChunks empty_result) (Some 5) = Inr []"
    by (simp add: empty_result_def)
  have s: "\<not> truthy_str (body_sessionId example_body)"
    by (simp add: example_body_def truthy_str_def)
  from empty_input_handling[OF q e r d, of "''(((('' " "Some 5" "\<lambda>p l. None"] q s
  show ?thesis by simp
qed

section \<open>The upload handler and its chunks\<close>

lemma upload_loop_Promise: "upload_loop emb sid fname (Promise xs) i req = Inr req"
  by (subst upload_loop.simps) (simp add: js_less_def js_length_def)

lemma coll_add_empty:
  "coll_add \<lparr> ids = [], embeddings = [], documents = [], metadatas = [] \<rparr> ix = Inr ix' \<Longrightarrow> records ix' = records ix"
  by (auto simp: coll_add_def split: if_splits)

lemma upload_handler_cases:
  assumes "upload_handler createDocuments emb ext unl upl ix = (resp, ix')"
  shows "records ix' = records ix \<and> resp \<noteq> Json (r\<lparr>chunkCount := Some n\<rparr>)"
proof (cases upl)
  case None
  with assms show ?thesis by (auto simp: upload_handler_def)
next
  case (Some f)
  show ?thesis
  proof (cases "ext (file_path f) (originalname f)")
    case (Inl e)
    with assms Some show ?thesis by (auto simp: upload_handler_def)
  next
    case (Inr t)
    show ?thesis
    proof (cases "coll_add \<lparr> ids = [], embeddings = [], documents = [], metadatas = [] \<rparr> ix")
      case (Inl e)
      with assms Some Inr show ?thesis
        by (auto simp: upload_handler_def optimalChunkText_def upload_loop_Promise)
    next
      case add: (Inr ix2)
      from coll_add_empty[OF add] have "records ix2 = records ix" .
      with assms Some Inr add show ?thesis
        by (cases "unl (file_path f)")
           (auto simp: upload_handler_def optimalChunkText_def upload_loop_Promise js_length_def
              dest: arg_cong[where f = chunkCount])
    qed
  qed
qed

text \<open>
  Claim C7. An upload runs the chunker, embeds every chunk it produced, adds them all to
  the vector index and reports a \<open>chunkCount\<close> equal to the number of chunks. The
  handler calls the \<^verbatim>\<open>async\<close> function \<^verbatim>\<open>optimalChunkText\<close> without \<^verbatim>\<open>await\<close>, so
  \<open>chunks\<close> is a Promise: \<^verbatim>\<open>chunks.length\<close> is \<^verbatim>\<open>undefined\<close>, the loop body never
  runs and \<^verbatim>\<open>collection.add\<close> receives empty arrays. Whatever the document is, the
  reply of the handler carries no number as \<open>chunkCount\<close> and the index holds the
  records it held before.
\<close>

theorem upload_chunkCount_undefined:
  "fst (upload_handler createDocuments emb ext unl upl ix) \<noteq> Json (r\<lparr>chunkCount := Some n\<rparr>)
   \<and> records (snd (upload_handler createDocuments emb ext unl upl ix)) = records ix"
proof -
  obtain resp ix' where h: "upload_handler createDocuments emb ext unl upl ix = (resp, ix')"
    by (cases "upload_handler createDocuments emb ext unl upl ix")
  from upload_handler_cases[OF h] h show ?thesis by simp
qed

section \<open>The session list\<close>

lemma sessions_bump_ids: "map ses_sessionId (sessions_bump sid ss) = map ses_sessionId ss"
  by (induction ss) (auto simp: sessions_bump_def)

lemma set_sessions_bump:
  "set (sessions_bump sid ss) =
     (\<lambda>s. if ses_sessionId s = sid then s\<lparr>ses_chunkCount := ses_chunkCount s + 1\<rparr> else s) ` set ss"
  by (simp add: sessions_bump_def)

lemma sessions_step_falsy:
  "\<not> truthy_str (sessionId m) \<Longrightarrow> sessions_inv ms ss \<Longrightarrow> sessions_inv (ms @ [m]) (sessions_step ss m)"
  by (auto simp: sessions_inv_def sessions_step_def grp_def truthy_str_def split: option.splits)

lemma sessions_step_new:
  assumes "sessionId m = Some sid" "sid \<noteq> []" "sid \<notin> ses_sessionId ` set ss" "sessions_inv ms ss"
  shows "sessions_inv (ms @ [m]) (sessions_step ss m)"
proof -
  from assms(3,4,2) have empty: "grp sid ms = []"
    unfolding sessions_inv_def by blast
  have step: "sessions_step ss m =
      sessions_bump sid (ss @ [\<lparr>ses_sessionId = sid, ses_filename = filename m, ses_chunkCount = 0\<rparr>])"
    using assms(1,2,3) by (simp add: sessions_step_def truthy_str_def sessions_has_def Let_def)
  have other: "grp sid' (ms @ [m]) = grp sid' ms" if "sid' \<noteq> sid" for sid'
    using that assms(1) by (simp add: grp_def)
  have this_one: "grp sid (ms @ [m]) = [m]"
    using empty assms(1) by (simp add: grp_def)
  have ne: "grp s (ms @ [m]) \<noteq> [] \<longleftrightarrow> s = sid \<or> grp s ms \<noteq> []" for s
    using assms(1) by (auto simp: grp_def)
  have d: "distinct (map ses_sessionId (sessions_step ss m))"
    using assms(3,4) by (simp add: step sessions_bump_ids sessions_inv_def)
  have i: "ses_sessionId ` set (sessions_step ss m) = {s. s \<noteq> [] \<and> grp s (ms @ [m]) \<noteq> []}"
  proof -
    have "ses_sessionId ` set (sessions_step ss m) = insert sid (ses_sessionId ` set ss)"
      using arg_cong[OF sessions_bump_ids, of set sid "ss @ [\<lparr>ses_sessionId = sid, ses_filename = filename m, ses_chunkCount = 0\<rparr>]"]
      by (simp add: step)
    also have "\<dots> = insert sid {s. s \<noteq> [] \<and> grp s ms \<noteq> []}"
      using assms(4) by (simp add: sessions_inv_def)
    also have "\<dots> = {s. s \<noteq> [] \<and> grp s (ms @ [m]) \<noteq> []}"
      using assms(2) ne by auto
    finally show ?thesis .
  qed
  have c: "ses_chunkCount s = length (grp (ses_sessionId s) (ms @ [m]))
         \<and> ses_filename s = filename (hd (grp (ses_sessionId s) (ms @ [m])))"
    if "s \<in> set (sessions_step ss m)" for s
  proof -
    from that consider
      (old) "s \<in> set ss" "ses_sessionId s \<noteq> sid"
      | (new) "s = \<lparr>ses_sessionId = sid, ses_filename = filename m, ses_chunkCount = 1\<rparr>"
      using assms(3) by (auto simp: step set_sessions_bump split: if_splits)
    then show ?thesis
    proof cases
      case old
      with assms(4) other show ?thesis by (simp add: sessions_inv_def)
    next
      case new
      then show ?thesis by (simp add: this_one)
    qed
  qed
  from d i c show ?thesis unfolding sessions_inv_def by blast
qed

lemma sessions_step_old:
  assumes "sessionId m = Some sid" "sid \<noteq> []" "sid \<in> ses_sessionId ` set ss" "sessions_inv ms ss"
  shows "sessions_inv (ms @ [m]) (sessions_step ss m)"
proof -
  from assms(3,4) have nonempty: "grp sid ms \<noteq> []"
    unfolding sessions_inv_def by blast
  have step: "sessions_step ss m = sessions_bump sid ss"
    using assms(1,2,3) by (simp add: sessions_step_def truthy_str_def sessions_has_def Let_def)
  have other: "grp sid' (ms @ [m]) = grp sid' ms" if "sid' \<noteq> sid" for sid'
    using that assms(1) by (simp add: grp_def)
  have this_one: "grp sid (ms @ [m]) = grp sid ms @ [m]"
    using assms(1) by (simp add: grp_def)
  have ne: "grp s (ms @ [m]) \<noteq> [] \<longleftrightarrow> s = sid \<or> grp s ms \<noteq> []" for s
    using assms(1) by (auto simp: grp_def)
  have d: "distinct (map ses_sessionId (sessions_step ss m))"
    using assms(4) by (simp add: step sessions_bump_ids sessions_inv_def)
  have i: "ses_sessionId ` set (sessions_step ss m) = {s. s \<noteq> [] \<and> grp s (ms @ [m]) \<noteq> []}"
  proof -
    have "ses_sessionId ` set (sessions_step ss m) = ses_sessionId ` set ss"
      using arg_cong[OF sessions_bump_ids, of set sid ss] by (simp add: step)
    also have "\<dots> = {s. s \<noteq> [] \<and> grp s ms \<noteq> []}"
      using assms(4) by (simp add: sessions_inv_def)
    also have "\<dots> = {s. s \<noteq> [] \<and> grp s (ms @ [m]) \<noteq> []}"
      using assms(2) nonempty ne by auto
    finally show ?thesis .
  qed
  have c: "ses_chunkCount s = length (grp (ses_sessionId s) (ms @ [m]))
         \<and> ses_filename s = filename (hd (grp (ses_sessionId s) (ms @ [m])))"
    if "s \<in> set (sessions_step ss m)" for s
  proof -
    from that obtain s0 where s0: "s0 \<in> set ss"
      and s: "s = (if ses_sessionId s0 = sid then s0\<lparr>ses_chunkCount := ses_chunkCount s0 + 1\<rparr> else s0)"
      by (auto simp: step set_sessions_bump)
    from s0 assms(4) have inv0: "ses_chunkCount s0 = length (grp (ses_sessionId s0) ms)"
       "ses_filename s0 = filename (hd (grp (ses_sessionId s0) ms))"
      by (simp_all add: sessions_inv_def)
    show ?thesis
    proof (cases "ses_sessionId s0 = sid")
      case True
      with s inv0 nonempty this_one show ?thesis by simp
    next
      case False
      with s inv0 other show ?thesis by simp
    qed
  qed
  from d i c show ?thesis unfolding sessions_inv_def by blast
qed

lemma sessions_step_inv:
  "sessions_inv ms ss \<Longrightarrow> sessions_inv (ms @ [m]) (sessions_step ss m)"
proof (cases "truthy_str (sessionId m)")
  case False
  then show "sessions_inv ms ss \<Longrightarrow> ?thesis" by (rule sessions_step_falsy)
next
  case True
  then obtain sid where sid: "sessionId m = Some sid" "sid \<noteq> []"
    by (auto simp: truthy_str_def split: option.splits)
  assume "sessions_inv ms ss"
  with sid show ?thesis
    by (cases "sid \<in> ses_sessionId ` set ss") (auto intro: sessions_step_old sessions_step_new)
qed

lemma sessions_fold_inv: "sessions_inv ms (foldl sessions_step [] ms)"
proof (induction ms rule: rev_induct)
  case Nil
  show ?case by (simp add: sessions_inv_def grp_def)
next
  case (snoc m ms)
  then show ?case by (simp add: sessions_step_inv)
qed

lemma sessions_loop_all_Some:
  "sessions_loop ss (map Some ms) = Inr (foldl sessions_step ss ms)"
  by (induction ms arbitrary: ss) simp_all

lemma sessions_loop_None:
  "None \<in> set mos \<Longrightarrow> sessions_loop ss mos = Inl TypeError"
proof (induction mos arbitrary: ss)
  case Nil
  then show ?case by simp
next
  case (Cons mo mos)
  then show ?case by (cases mo) auto
qed

lemma grp_records:
  assumes "\<forall>r \<in> set rs. rec_metadata r \<noteq> None"
  shows "grp sid (map (the \<circ> rec_metadata) rs)
       = map (the \<circ> rec_metadata) (filter (\<lambda>r. session_of r = Some sid) rs)"
  using assms
  by (induction rs) (auto simp: grp_def session_of_def)

text \<open>
  Claim C8, as stated: when the chunks of a session do not all carry the same file name,
  the session list reports a data-integrity violation. It does not: for the two records
  of session \<open>s1\<close> below, with the file names \<open>A.pdf\<close> and \<open>B.pdf\<close>, the handler
  answers with one session that carries the first file name.
\<close>

theorem sessions_counterexample:
  "map_option filename (rec_metadata (records disagreeing_index ! 0))
     \<noteq> map_option filename (rec_metadata (records disagreeing_index ! 1))
   \<and> session_of (records disagreeing_index ! 0) = Some ''s1''
   \<and> session_of (records disagreeing_index ! 1) = Some ''s1''
   \<and> sessions_handler disagreeing_index
       = Json [\<lparr> ses_sessionId = ''s1'', ses_filename = Some ''A.pdf'', ses_chunkCount = 2 \<rparr>]"
  by (simp add: disagreeing_index_def example_record_def sessions_handler_def coll_get_def
        session_of_def sessions_step_def sessions_has_def sessions_bump_def truthy_str_def)

text \<open>
  Claim C8, amended. When the index answers, the session list never reports a
  disagreement on the file name. If every record of the index has metadata, the reply is
  JSON with one session per non-empty session id that occurs in the index: the
  \<open>chunkCount\<close> of a session is the number of records of its group, and its file name is
  the file name of the first record of the group, whether or not the other records of
  the group carry the same one. If some record has no metadata, the handler fails with
  the TypeError of reading \<^verbatim>\<open>sessionId\<close> on \<^verbatim>\<open>null\<close>, whatever the file names are.
\<close>

theorem sessions_first_filename:
  assumes "online ix"
  shows "if \<forall>r \<in> set (records ix). rec_metadata r \<noteq> None
    then \<exists>ss. sessions_handler ix = Json ss
      \<and> distinct (map ses_sessionId ss)
      \<and> ses_sessionId ` set ss
          = {sid. sid \<noteq> [] \<and> (\<exists>r \<in> set (records ix). session_of r = Some sid)}
      \<and> (\<forall>s \<in> set ss.
            ses_chunkCount s
              = length (filter (\<lambda>r. session_of r = Some (ses_sessionId s)) (records ix))
          \<and> Some (ses_filename s)
              = map_option filename (rec_metadata
                  (hd (filter (\<lambda>r. session_of r = Some (ses_sessionId s)) (records ix)))))
    else sessions_handler ix = Failure TypeError"
proof (cases "\<forall>r \<in> set (records ix). rec_metadata r \<noteq> None")
  case False
  then have "None \<in> set (map rec_metadata (records ix))" by force
  then have "sessions_loop [] (map rec_metadata (records ix)) = Inl TypeError"
    by (rule sessions_loop_None)
  with assms False show ?thesis
    by (simp add: sessions_handler_def coll_get_def)
next
  case True
  define ms where "ms = map (the \<circ> rec_metadata) (records ix)"
  define ss where "ss = foldl sessions_step [] ms"
  have all: "map rec_metadata (records ix) = map Some ms"
    using True by (auto simp: ms_def)
  have h: "sessions_handler ix = Json ss"
    using assms by (simp add: sessions_handler_def coll_get_def all sessions_loop_all_Some ss_def)
  have inv: "sessions_inv ms ss"
    unfolding ss_def by (rule sessions_fold_inv)
  have g: "grp sid ms = map (the \<circ> rec_metadata) (filter (\<lambda>r. session_of r = Some sid) (records ix))"
    for sid unfolding ms_def using True by (rule grp_records)
  have ne: "grp sid ms \<noteq> [] \<longleftrightarrow> (\<exists>r \<in> set (records ix). session_of r = Some sid)" for sid
    by (auto simp: g filter_empty_conv)
  have d: "distinct (map ses_sessionId ss)"
    using inv by (simp add: sessions_inv_def)
  have i: "ses_sessionId ` set ss
        = {sid. sid \<noteq> [] \<and> (\<exists>r \<in> set (records ix). session_of r = Some sid)}"
    using inv ne by (simp add: sessions_inv_def)
  have c: "ses_chunkCount s
            = length (filter (\<lambda>r. session_of r = Some (ses_sessionId s)) (records ix))
        \<and> Some (ses_filename s)
            = map_option filename (rec_metadata
                (hd (filter (\<lambda>r. session_of r = Some (ses_sessionId s)) (records ix))))"
    if "s \<in> set ss" for s
  proof -
    let ?g = "filter (\<lambda>r. session_of r = Some (ses_sessionId s)) (records ix)"
    from that inv have "grp (ses_sessionId s) ms \<noteq> []"
      unfolding sessions_inv_def by blast
    then have ne_g: "?g \<noteq> []" by (simp add: g)
    then have "hd ?g \<in> set (records ix)"
      by (metis filter_is_subset hd_in_set subsetD)
    with True obtain m where m: "rec_metadata (hd ?g) = Some m" by auto
    from that inv have "ses_chunkCount s = length (grp (ses_sessionId s) ms)"
      and "ses_filename s = filename (hd (grp (ses_sessionId s) ms))"
      by (simp_all add: sessions_inv_def)
    with ne_g m show ?thesis by (simp add: g hd_map)
  qed
  from h d i c True show ?thesis by auto
qed

text \<open>
  The theorem of C8 at the index whose two records of one session disagree on the file
  name, and at an index that holds a record without metadata.
\<close>

theorem sessions_first_filename_witness:
  "online disagreeing_index
   \<and> (\<exists>ss. sessions_handler disagreeing_index = Json ss \<and> distinct (map ses_sessionId ss))
   \<and> online bare_index
   \<and> sessions_handler bare_index = Failure TypeError"
proof -
  have h: "online disagreeing_index" by (simp add: disagreeing_index_def)
  have a: "\<forall>r \<in> set (records disagreeing_index). rec_metadata r \<noteq> None"
    by (simp add: disagreeing_index_def example_record_def)
  have h': "online bare_index" by (simp add: bare_index_def)
  have b: "\<not> (\<forall>r \<in> set (records bare_index). rec_metadata r \<noteq> None)"
    by (simp add: bare_index_def)
  from sessions_first_filename[OF h] a
  have 1: "\<exists>ss. sessions_handler disagreeing_index = Json ss \<and> distinct (map ses_sessionId ss)"
    by auto
  from sessions_first_filename[OF h'] b
  have 2: "sessions_handler bare_index = Failure TypeError"
    by auto
  from h 1 h' 2 show ?thesis by blast
qed

section \<open>Deleting a session\<close>

lemma delete_filter:
  assumes "distinct (map rec_id recs)"
  shows "filter (\<lambda>r. rec_id r \<notin> set (map rec_id (filter P recs))) recs = filter (\<lambda>r. \<not> P r) recs"
proof (rule filter_cong[OF refl])
  fix r assume r: "r \<in> set recs"
  have inj: "inj_on rec_id (set recs)" using assms by (simp add: distinct_map)
  show "(rec_id r \<notin> set (map rec_id (filter P recs))) = (\<not> P r)"
    using r inj by (auto dest: inj_onD)
qed

text \<open>
  Claim C9. When the index answers and its record ids are distinct: if no record carries
  the session id, the handler answers 404 ``Session not found'' and leaves the index as
  it is; otherwise it removes exactly the records that carry the session id, every one
  of them, and reports their number in its message.
\<close>

theorem delete_session_removes_all:
  assumes "online ix" and "distinct (map rec_id (records ix))"
  shows "(if filter (\<lambda>r. session_of r = Some sid) (records ix) = []
          then delete_handler sid ix = (Status 404 ''Session not found'', ix)
          else delete_handler sid ix =
            (Json (''Deleted ''
                   @ dec (length (filter (\<lambda>r. session_of r = Some sid) (records ix)))
                   @ '' chunks for session '' @ sid),
             ix \<lparr> records := filter (\<lambda>r. session_of r \<noteq> Some sid) (records ix) \<rparr>))"
proof -
  let ?P = "\<lambda>r. session_of r = Some sid"
  have get: "coll_get (Some sid) ix = Inr (filter ?P (records ix))"
    using assms(1) by (simp add: coll_get_def)
  have "coll_delete (map rec_id (filter ?P (records ix))) ix
      = Inr (ix \<lparr> records := filter (\<lambda>r. rec_id r \<notin> set (map rec_id (filter ?P (records ix)))) (records ix) \<rparr>)"
    using assms(1) unfolding coll_delete_def by (simp only: not_True_eq_False if_False)
  then have del: "coll_delete (map rec_id (filter ?P (records ix))) ix
      = Inr (ix \<lparr> records := filter (\<lambda>r. \<not> ?P r) (records ix) \<rparr>)"
    by (simp only: delete_filter[OF assms(2)])
  show ?thesis
    by (simp add: delete_handler_def get del)
qed

text \<open>
  The theorem of C9 at an index with two records of session \<open>s1\<close> and one of
  \<open>s2\<close>, and at a session id that does not occur.
\<close>

theorem delete_session_removes_all_witness:
  "online example_index
   \<and> distinct (map rec_id (records example_index))
   \<and> delete_handler ''s1'' example_index
       = (Json ''Deleted 2 chunks for session s1'',
          example_index \<lparr> records := [example_record ''s2_chunk_0'' ''s2'' ''B.pdf''] \<rparr>)
   \<and> delete_handler ''s9'' example_index = (Status 404 ''Session not found'', example_index)"
proof -
  have h1: "online example_index" by (simp add: example_index_def)
  have h2: "distinct (map rec_id (records example_index))"
    by (simp add: example_index_def example_record_def)
  have two: "dec (Suc (Suc 0)) = ''2''" by code_simp
  from delete_session_removes_all[OF h1 h2, of "''s1''"]
  have a: "delete_handler ''s1'' example_index
       = (Json ''Deleted 2 chunks for session s1'',
          example_index \<lparr> records := [example_record ''s2_chunk_0'' ''s2'' ''B.pdf''] \<rparr>)"
    by (simp add: example_index_def example_record_def session_of_def two)
  from delete_session_removes_all[OF h1 h2, of "''s9''"]
  have b: "delete_handler ''s9'' example_index = (Status 404 ''Session not found'', example_index)"
    by (simp add: example_index_def example_record_def session_of_def)
  from h1 h2 a b show ?thesis by blast
qed

end
